theory Spec2Isabelle
  imports Complex_Main
begin

section \<open>Values exchanged with the collaborators\<close>

text \<open>
  The notebook \<^verbatim>\<open>03_Hybrid_Search_and_Retrieval.ipynb\<close> builds Python dictionaries,
  hands them to the search client and reads dictionaries back. A dictionary is modelled
  as an association list of string keys (the literals of the source never repeat a key),
  a Python list as a list. Floating-point numbers are only passed through, never
  computed with, so their type \<open>'f\<close> is left open.
\<close>

datatype 'f json =
    JNone
  | JBool bool
  | JInt int
  | JFloat 'f
  | JStr string
  | JArr "'f json list"
  | JObj "(string \<times> 'f json) list"

text \<open>The exceptions the notebook's cells name, and every other one.\<close>

datatype exn =
    TypeError
  | KeyError string
  | ConnectionError
  | ConnectionTimeout
  | NotFoundError
  | TransportError nat
  | ResponseError string
  | OtherException string

text \<open>
  \<^verbatim>\<open>value[key]\<close> with a string key: a dictionary raises \<^verbatim>\<open>KeyError\<close> for a missing
  key, anything else raises \<^verbatim>\<open>TypeError\<close> (list and string indices must be integers, the
  other values are not subscriptable).
\<close>

fun subscript :: "'f json \<Rightarrow> string \<Rightarrow> exn + 'f json" where
  "subscript (JObj kvs) key =
     (case map_of kvs key of None \<Rightarrow> Inl (KeyError key) | Some v \<Rightarrow> Inr v)"
| "subscript _ key = Inl TypeError"

text \<open>
  \<^verbatim>\<open>value[k1][k2]...\<close>, left to right; the first failing subscript raises.
\<close>

fun subscripts :: "'f json \<Rightarrow> string list \<Rightarrow> exn + 'f json" where
  "subscripts v [] = Inr v"
| "subscripts v (key # keys) =
     (case subscript v key of Inl e \<Rightarrow> Inl e | Inr v' \<Rightarrow> subscripts v' keys)"

text \<open>
  \<^verbatim>\<open>str(value)\<close>, as \<^verbatim>\<open>print\<close> and an f-string apply it: a string is written as it
  is. How Python writes any other value is not modelled and is the parameter
  \<open>str_of\<close>.
\<close>

definition py_str :: "('f json \<Rightarrow> string) \<Rightarrow> 'f json \<Rightarrow> string" where
  "py_str str_of v = (case v of JStr s \<Rightarrow> s | _ \<Rightarrow> str_of v)"

text \<open>\<^verbatim>\<open>str(n)\<close> of a natural number: its decimal digits.\<close>

definition digit :: "nat \<Rightarrow> char" where
  "digit d = ''0123456789'' ! d"

fun str_nat :: "nat \<Rightarrow> string" where
  "str_nat n = (if n < 10 then [digit n] else str_nat (n div 10) @ [digit (n mod 10)])"

declare str_nat.simps [simp del]

text \<open>What is written to standard output, in order.\<close>

datatype event = Stdout string

section \<open>Calls to the collaborators\<close>

text \<open>
  \<^verbatim>\<open>client.search(index=..., body=..., params=...)\<close>: the keyword arguments of one
  call. \<open>params = None\<close> is the call without the \<^verbatim>\<open>params\<close> argument.
\<close>

record 'f search_call =
  index :: string
  body :: "'f json"
  params :: "(string \<times> string) list option"

text \<open>
  The calls the notebook makes: \<^verbatim>\<open>client.search\<close>, \<^verbatim>\<open>client.info()\<close>,
  \<^verbatim>\<open>client.transport.perform_request(method, url)\<close> and \<^verbatim>\<open>ollama.pull(model)\<close>.
  The last one, \<^verbatim>\<open>time.sleep(seconds)\<close>, is the call by which Python code waits
  before it goes on (a backoff before a retry is such a call); no cell of the notebook
  makes it.
\<close>

datatype 'f call =
    Search "'f search_call"
  | Info
  | PerformRequest string string
  | Pull string
  | Sleep 'f

text \<open>
  A collaborator (the search client, the generation provider) is external: a call
  either raises or returns a value, and may change the state \<open>'w\<close> of the world outside,
  so that a second call may be answered differently.
\<close>

type_synonym ('f, 'w) collaborator = "'f call \<Rightarrow> 'w \<Rightarrow> (exn + 'f json) \<times> 'w"

text \<open>
  One run of a cell or function: what it returns or raises, what it printed, the
  calls it made (in order) and the world it leaves behind.
\<close>

record ('f, 'a, 'w) run =
  outcome :: "exn + 'a"
  printed :: "event list"
  calls :: "'f call list"
  world :: "'w"

section \<open>The search client\<close>

text \<open>
  The keyword arguments of \<^verbatim>\<open>client = OpenSearch(...)\<close>. Host and port are imported
  from \<^verbatim>\<open>src.constants\<close> and are parameters.
\<close>

record client_config =
  hosts :: "(string \<times> nat) list"
  http_compress :: bool
  timeout :: nat
  max_retries :: nat
  retry_on_timeout :: bool

definition client_config :: "string \<Rightarrow> nat \<Rightarrow> client_config" where
  "client_config OPENSEARCH_HOST OPENSEARCH_PORT =
     \<lparr>hosts = [(OPENSEARCH_HOST, OPENSEARCH_PORT)],
      http_compress = True,
      timeout = 30,
      max_retries = 3,
      retry_on_timeout = True\<rparr>"

text \<open>
  What \<open>max_retries\<close> and \<open>retry_on_timeout\<close> ask of the client library
  (opensearch-py, which is not part of the repository): its transport sends a request
  in a loop of \<open>max_retries + 1\<close> attempts. An attempt that raises a connection
  error, a connection timeout when \<open>retry_on_timeout\<close> is set, or an HTTP status
  among the library's default 502, 503 and 504 is followed by the next attempt; the
  last attempt's exception, and any other exception, is raised to the caller.
  \<open>wire\<close> is one attempt on the network.
\<close>

definition retried :: "client_config \<Rightarrow> exn \<Rightarrow> bool" where
  "retried cfg e =
     (case e of
        ConnectionTimeout \<Rightarrow> retry_on_timeout cfg
      | ConnectionError \<Rightarrow> True
      | TransportError status \<Rightarrow> status \<in> {502, 503, 504}
      | _ \<Rightarrow> False)"

fun transport_attempts ::
  "client_config \<Rightarrow> ('f, 'w) collaborator \<Rightarrow> 'f call \<Rightarrow> nat \<Rightarrow> 'w \<Rightarrow> (exn + 'f json) \<times> 'w" where
  "transport_attempts cfg wire request 0 w = wire request w"
| "transport_attempts cfg wire request (Suc remaining) w =
     (case wire request w of
        (Inr response, w') \<Rightarrow> (Inr response, w')
      | (Inl e, w') \<Rightarrow>
          if retried cfg e then transport_attempts cfg wire request remaining w'
          else (Inl e, w'))"


text \<open>
  A wire that also counts the attempts made on it, a host that refuses every
  connection, and a host where every attempt raises the same exception \<open>e\<close>.
\<close>

definition counting :: "('f, 'w) collaborator \<Rightarrow> ('f, 'w \<times> nat) collaborator" where
  "counting wire request wn =
     (case wire request (fst wn) of (r, w') \<Rightarrow> (r, (w', Suc (snd wn))))"



section \<open>The cells that check the collaborators\<close>

text \<open>
  The connection check. \<open>exn_str\<close> is \<^verbatim>\<open>str(e)\<close> of an exception, which is not
  modelled. The \<^verbatim>\<open>except Exception\<close> clause also catches what the f-string of the
  \<^verbatim>\<open>try\<close> block raises; it prints and raises the exception again.
\<close>

definition check_connection ::
  "('f json \<Rightarrow> string) \<Rightarrow> (exn \<Rightarrow> string) \<Rightarrow> ('f, 'w) collaborator \<Rightarrow> 'w \<Rightarrow> ('f, unit, 'w) run" where
  "check_connection str_of exn_str client w =
     (let failed = (\<lambda>e.
            [Stdout (''Failed to connect to OpenSearch: '' @ exn_str e @ ''\<newline>''),
             Stdout ''Make sure OpenSearch is running on localhost:9200\<newline>''])
      in case client Info w of
           (Inr info, w1) \<Rightarrow>
             (case subscripts info [''version'', ''number''] of
                Inr number \<Rightarrow>
                  \<lparr>outcome = Inr (),
                   printed = [Stdout (''Successfully connected to OpenSearch ''
                                        @ py_str str_of number @ ''\<newline>'')],
                   calls = [Info], world = w1\<rparr>
              | Inl e \<Rightarrow>
                  \<lparr>outcome = Inl e, printed = failed e, calls = [Info], world = w1\<rparr>)
         | (Inl e, w1) \<Rightarrow>
             \<lparr>outcome = Inl e, printed = failed e, calls = [Info], world = w1\<rparr>)"







section \<open>The hybrid query\<close>

text \<open>\<^verbatim>\<open>top_k: int = 5\<close>: an omitted argument is \<open>None\<close>.\<close>

definition top_k_value :: "int option \<Rightarrow> int" where
  "top_k_value top_k = (case top_k of None \<Rightarrow> 5 | Some k \<Rightarrow> k)"

definition query_body :: "string \<Rightarrow> 'f list \<Rightarrow> int \<Rightarrow> 'f json" where
  "query_body query_text query_embedding top_k =
     JObj [
       (''_source'', JObj [(''exclude'', JArr [JStr ''embedding''])]),
       (''query'', JObj [
          (''hybrid'', JObj [
             (''queries'', JArr [
                JObj [(''match'', JObj [(''text'', JObj [(''query'', JStr query_text)])])],
                JObj [(''knn'', JObj [
                   (''embedding'', JObj [
                      (''vector'', JArr (map JFloat query_embedding)),
                      (''k'', JInt top_k)])])]])])]),
       (''size'', JInt top_k)]"

text \<open>
  The two calls \<^verbatim>\<open>hybrid_search\<close> can make: with the pipeline parameter, and the
  fallback without it. Both are given the same \<^verbatim>\<open>query_body\<close> object.
\<close>

definition pipeline_call :: "string \<Rightarrow> 'f json \<Rightarrow> 'f call" where
  "pipeline_call OPENSEARCH_INDEX qb =
     Search \<lparr>index = OPENSEARCH_INDEX, body = qb,
             params = Some [(''search_pipeline'', ''nlp-search-pipeline'')]\<rparr>"

definition fallback_call :: "string \<Rightarrow> 'f json \<Rightarrow> 'f call" where
  "fallback_call OPENSEARCH_INDEX qb =
     Search \<lparr>index = OPENSEARCH_INDEX, body = qb, params = None\<rparr>"

text \<open>
  \<^verbatim>\<open>hybrid_search(query_text, query_embedding, top_k=5)\<close>. The globals it reads are
  parameters: the \<open>client\<close> and \<open>OPENSEARCH_INDEX\<close> (imported from
  \<^verbatim>\<open>src.constants\<close>). Only a \<^verbatim>\<open>TypeError\<close> of the first call is caught; every
  other exception, and every exception of the second call, leaves the function. It
  returns \<^verbatim>\<open>response["hits"]["hits"]\<close>.
\<close>

definition hybrid_search ::
  "('f, 'w) collaborator \<Rightarrow> string \<Rightarrow> string \<Rightarrow> 'f list \<Rightarrow> int option \<Rightarrow> 'w
     \<Rightarrow> ('f, 'f json, 'w) run" where
  "hybrid_search client OPENSEARCH_INDEX query_text query_embedding top_k w =
     (let qb = query_body query_text query_embedding (top_k_value top_k);
          p0 = [Stdout ''\<newline>Executing hybrid search query...\<newline>''];
          call1 = pipeline_call OPENSEARCH_INDEX qb
      in case client call1 w of
           (Inr response, w1) \<Rightarrow>
             \<lparr>outcome = subscripts response [''hits'', ''hits''], printed = p0,
              calls = [call1], world = w1\<rparr>
         | (Inl e, w1) \<Rightarrow>
             if e = TypeError then
               (let p1 = p0 @ [Stdout ''Warning: OpenSearch client doesn't support search_pipeline parameter, using raw query\<newline>''];
                    call2 = fallback_call OPENSEARCH_INDEX qb
                in case client call2 w1 of
                     (Inr response, w2) \<Rightarrow>
                       \<lparr>outcome = subscripts response [''hits'', ''hits''], printed = p1,
                        calls = [call1, call2], world = w2\<rparr>
                   | (Inl e2, w2) \<Rightarrow>
                       \<lparr>outcome = Inl e2, printed = p1,
                        calls = [call1, call2], world = w2\<rparr>)
             else
               \<lparr>outcome = Inl e, printed = p0, calls = [call1], world = w1\<rparr>)"

section \<open>The prompt\<close>

text \<open>
  The loop of \<^verbatim>\<open>generate_response_with_ollama\<close>:
  \<^verbatim>\<open>for i, result in enumerate(results): context += f"Document {i + 1}:\n{result['_source']['text']}\n\n"\<close>
  with \<open>i\<close> the index of the next hit and \<open>context\<close> the text so far. A hit without
  the subscripted keys raises.
\<close>

fun format_context ::
  "('f json \<Rightarrow> string) \<Rightarrow> nat \<Rightarrow> string \<Rightarrow> 'f json list \<Rightarrow> exn + string" where
  "format_context str_of i context [] = Inr context"
| "format_context str_of i context (result # results) =
     (case subscripts result [''_source'', ''text''] of
        Inl e \<Rightarrow> Inl e
      | Inr text \<Rightarrow>
          format_context str_of (i + 1)
            (context @ ''Document '' @ str_nat (i + 1) @ '':\<newline>''
               @ py_str str_of text @ ''\<newline>\<newline>'')
            results)"

definition prompt_template :: "string \<Rightarrow> string \<Rightarrow> string" where
  "prompt_template context query =
     ''You are a helpful AI assistant. Use the following context to answer the question.\<newline>''
     @ ''If you cannot find the answer in the context, say so.\<newline>''
     @ ''\<newline>''
     @ ''Context:\<newline>''
     @ context @ ''\<newline>''
     @ ''\<newline>''
     @ ''Question: '' @ query @ ''\<newline>''
     @ ''\<newline>''
     @ ''Answer: ''"

text \<open>
  \<^verbatim>\<open>generate_response_with_ollama(query, results, model_name=OLLAMA_MODEL_NAME)\<close>
  returns the pair of the prompt and the model name. \<open>OLLAMA_MODEL_NAME\<close> is imported
  from \<^verbatim>\<open>src.constants\<close> and is a parameter; an omitted \<open>model_name\<close> is \<open>None\<close>.
\<close>

definition generate_response_with_ollama ::
  "('f json \<Rightarrow> string) \<Rightarrow> string \<Rightarrow> string \<Rightarrow> 'f json list \<Rightarrow> string option
     \<Rightarrow> exn + string \<times> string" where
  "generate_response_with_ollama str_of OLLAMA_MODEL_NAME query results model_name =
     (case format_context str_of 0 [] results of
        Inl e \<Rightarrow> Inl e
      | Inr context \<Rightarrow>
          Inr (prompt_template context query,
               case model_name of None \<Rightarrow> OLLAMA_MODEL_NAME | Some name \<Rightarrow> name))"

section \<open>The generation relay\<close>

text \<open>
  \<^verbatim>\<open>ollama.generate(model=..., prompt=..., stream=True)\<close> is iterated to its end: what
  the iteration yields is a list whose items are chunks, or an exception that the
  provider raises in place of the next chunk. The loop
  \<^verbatim>\<open>for chunk in ...: piece = chunk['response']; print(piece, end='', flush=True); response += piece\<close>
  starts from \<^verbatim>\<open>response = ""\<close>; adding a piece that is not a string to a string
  raises \<^verbatim>\<open>TypeError\<close>, after the piece has been printed.
\<close>

fun relay ::
  "('f json \<Rightarrow> string) \<Rightarrow> string \<Rightarrow> event list \<Rightarrow> (exn + 'f json) list
     \<Rightarrow> (exn + string) \<times> event list" where
  "relay str_of response out [] = (Inr response, out)"
| "relay str_of response out (Inl e # rest) = (Inl e, out)"
| "relay str_of response out (Inr chunk # rest) =
     (case subscript chunk ''response'' of
        Inl e \<Rightarrow> (Inl e, out)
      | Inr piece \<Rightarrow>
          (case piece of
             JStr s \<Rightarrow> relay str_of (response @ s) (out @ [Stdout s]) rest
           | _ \<Rightarrow> (Inl TypeError, out @ [Stdout (py_str str_of piece)])))"

text \<open>
  The generation provider is external. Its two modes, for a model and a prompt:
  the stream of chunks (\<^verbatim>\<open>stream=True\<close>, what the notebook asks for) and the single
  completion (\<^verbatim>\<open>stream=False\<close>).
\<close>

record 'f provider =
  generate_stream :: "string \<Rightarrow> string \<Rightarrow> (exn + 'f json) list"
  generate_once :: "string \<Rightarrow> string \<Rightarrow> exn + 'f json"

definition streamed_response ::
  "('f json \<Rightarrow> string) \<Rightarrow> 'f provider \<Rightarrow> string \<Rightarrow> string \<Rightarrow> (exn + string) \<times> event list" where
  "streamed_response str_of ollama model_name prompt =
     relay str_of [] [] (generate_stream ollama model_name prompt)"

text \<open>
  The comparison the specification makes: the text of the provider's non-streaming
  completion, \<^verbatim>\<open>ollama.generate(model=..., prompt=...)['response']\<close>. The notebook
  never makes this call.
\<close>

definition non_streaming_completion :: "'f provider \<Rightarrow> string \<Rightarrow> string \<Rightarrow> exn + 'f json" where
  "non_streaming_completion ollama model_name prompt =
     (case generate_once ollama model_name prompt of
        Inl e \<Rightarrow> Inl e
      | Inr completion \<Rightarrow> subscript completion ''response'')"

section \<open>Readings of a run, and concrete inputs\<close>

text \<open>The query bodies of the searches in a list of calls, in order.\<close>

fun bodies :: "'f call list \<Rightarrow> 'f json list" where
  "bodies [] = []"
| "bodies (Search c # cs) = body c # bodies cs"
| "bodies (_ # cs) = bodies cs"

text \<open>The first component of what the prompt builder returns, or what it raises.\<close>

definition prompt_of :: "exn + string \<times> string \<Rightarrow> exn + string" where
  "prompt_of r = (case r of Inl e \<Rightarrow> Inl e | Inr (prompt, model_name) \<Rightarrow> Inr prompt)"

text \<open>The block that the loop of the prompt builder adds for the hit at index \<open>i\<close>.\<close>

definition document_block :: "nat \<Rightarrow> string \<Rightarrow> string" where
  "document_block i text =
     ''Document '' @ str_nat (i + 1) @ '':\<newline>'' @ text @ ''\<newline>\<newline>''"

text \<open>
  A client of an older version: it rejects the \<^verbatim>\<open>params\<close> argument with
  \<^verbatim>\<open>TypeError\<close> and answers a search without it. Its world counts the calls.
\<close>

definition old_client :: "(real, nat) collaborator" where
  "old_client request n =
     (case request of
        Search c \<Rightarrow>
          (if params c = None
           then (Inr (JObj [(''took'', JInt 3),
                            (''hits'', JObj [(''max_score'', JFloat 0.5),
                                             (''hits'', JArr [JObj [(''_score'', JFloat 0.5)]])])]),
                 Suc n)
           else (Inl TypeError, Suc n))
      | _ \<Rightarrow> (Inl (OtherException ''unexpected''), n))"

text \<open>
  Three hits: \<open>hit_a\<close> and \<open>hit_b\<close> carry the same text under different scores,
  document names and key order.
\<close>

definition hit_a :: "real json" where
  "hit_a = JObj [(''_score'', JFloat 0.5),
                 (''_source'', JObj [(''text'', JStr ''Ice is melting.''),
                                     (''document_name'', JStr ''a.pdf'')])]"

definition hit_b :: "real json" where
  "hit_b = JObj [(''_score'', JFloat 0.25),
                 (''_source'', JObj [(''document_name'', JStr ''b.pdf''),
                                     (''text'', JStr ''Ice is melting.'')])]"

definition hit_c :: "real json" where
  "hit_c = JObj [(''_id'', JStr ''7''),
                 (''_source'', JObj [(''text'', JStr ''Sea level rises.'')])]"

definition no_str :: "real json \<Rightarrow> string" where
  "no_str v = ''?''"

text \<open>A provider whose stream and whose single completion carry the same text.\<close>

definition steady_provider :: "real provider" where
  "steady_provider =
     \<lparr>generate_stream = (\<lambda>model_name prompt.
          [Inr (JObj [(''model'', JStr model_name), (''response'', JStr ''The ice ''), (''done'', JBool False)]),
           Inr (JObj [(''model'', JStr model_name), (''response'', JStr ''melts.''), (''done'', JBool False)]),
           Inr (JObj [(''model'', JStr model_name), (''response'', JStr []), (''done'', JBool True)])]),
      generate_once = (\<lambda>model_name prompt.
          Inr (JObj [(''model'', JStr model_name), (''response'', JStr ''The ice melts.''), (''done'', JBool True)]))\<rparr>"


section \<open>The searches of \<^verbatim>\<open>hybrid_search\<close>\<close>

lemma hybrid_search_calls:
  "calls (hybrid_search client idx q v k w) =
     (if fst (client (pipeline_call idx (query_body q v (top_k_value k))) w) = Inl TypeError
      then [pipeline_call idx (query_body q v (top_k_value k)),
            fallback_call idx (query_body q v (top_k_value k))]
      else [pipeline_call idx (query_body q v (top_k_value k))])"
  by (simp add: hybrid_search_def Let_def split: prod.splits sum.splits)

lemma hybrid_search_bodies:
  "set (bodies (calls (hybrid_search client idx q v k w))) = {query_body q v (top_k_value k)}"
  by (simp add: hybrid_search_calls pipeline_call_def fallback_call_def)

text \<open>
  Claim C1. For every query string \<open>q\<close>, every vector \<open>v\<close> (of the configured
  dimension or of any other length) and every result count, the list under
  \<^verbatim>\<open>body["query"]["hybrid"]["queries"]\<close> has exactly two clauses: a \<^verbatim>\<open>match\<close> clause on
  the field \<^verbatim>\<open>text\<close> that carries the query string, then a \<^verbatim>\<open>knn\<close> clause on the
  field \<^verbatim>\<open>embedding\<close> that carries the vector; \<^verbatim>\<open>body["_source"]\<close> asks to exclude
  \<^verbatim>\<open>embedding\<close>. Every search that \<^verbatim>\<open>hybrid_search\<close> sends, and it sends at least
  one, carries this body.
\<close>

theorem hybrid_search_payload:
  "subscripts (query_body q v k) [''query'', ''hybrid'', ''queries''] =
     Inr (JArr [JObj [(''match'', JObj [(''text'', JObj [(''query'', JStr q)])])],
                JObj [(''knn'', JObj [(''embedding'',
                        JObj [(''vector'', JArr (map JFloat v)), (''k'', JInt k)])])]])
   \<and> subscripts (query_body q v k) [''_source''] =
       Inr (JObj [(''exclude'', JArr [JStr ''embedding''])])
   \<and> set (bodies (calls (hybrid_search client idx q v top_k w))) =
       {query_body q v (top_k_value top_k)}"
  by (simp add: query_body_def hybrid_search_bodies)

text \<open>
  Claim C9. In the body that \<^verbatim>\<open>hybrid_search\<close> composes and sends, the \<^verbatim>\<open>k\<close> of the
  \<^verbatim>\<open>knn\<close> clause and the top-level \<^verbatim>\<open>size\<close> are both the \<^verbatim>\<open>top_k\<close> argument, which
  is 5 when the argument is omitted.
\<close>

theorem knn_k_and_size_equal_top_k:
  "\<exists>match knn.
     subscripts (query_body q v (top_k_value top_k)) [''query'', ''hybrid'', ''queries''] =
       Inr (JArr [match, knn])
     \<and> subscripts knn [''knn'', ''embedding'', ''k''] = Inr (JInt (top_k_value top_k))
     \<and> subscripts (query_body q v (top_k_value top_k)) [''size''] = Inr (JInt (top_k_value top_k))
     \<and> set (bodies (calls (hybrid_search client idx q v top_k w))) =
         {query_body q v (top_k_value top_k)}
     \<and> top_k_value None = 5 \<and> top_k_value (Some k) = k"
  by (simp add: query_body_def hybrid_search_bodies top_k_value_def)

text \<open>
  Claim C2. When the search with the pipeline parameter raises \<^verbatim>\<open>TypeError\<close>,
  \<^verbatim>\<open>hybrid_search\<close> makes exactly two calls: the first, and one more with the same
  index and the same body but without \<^verbatim>\<open>params\<close>. What the second call returns
  decides the result: \<^verbatim>\<open>response["hits"]["hits"]\<close> of its response, or the exception
  it raises (also a second \<^verbatim>\<open>TypeError\<close>), with no third call.
\<close>

theorem typeerror_fallback:
  assumes "client (pipeline_call idx (query_body q v (top_k_value top_k))) w = (Inl TypeError, w1)"
  shows "calls (hybrid_search client idx q v top_k w) =
           [Search \<lparr>index = idx, body = query_body q v (top_k_value top_k),
                    params = Some [(''search_pipeline'', ''nlp-search-pipeline'')]\<rparr>,
            Search \<lparr>index = idx, body = query_body q v (top_k_value top_k), params = None\<rparr>]
         \<and> outcome (hybrid_search client idx q v top_k w) =
             (case fst (client (fallback_call idx (query_body q v (top_k_value top_k))) w1) of
                Inl e \<Rightarrow> Inl e
              | Inr response \<Rightarrow> subscripts response [''hits'', ''hits''])
         \<and> world (hybrid_search client idx q v top_k w) =
             snd (client (fallback_call idx (query_body q v (top_k_value top_k))) w1)"
  using assms
  by (simp add: hybrid_search_def Let_def pipeline_call_def fallback_call_def
           split: prod.splits sum.splits)

theorem typeerror_fallback_witness:
  "old_client (pipeline_call ''docs'' (query_body ''ice loss'' [0.25, 0.5] 5)) 0 = (Inl TypeError, 1)
   \<and> calls (hybrid_search old_client ''docs'' ''ice loss'' [0.25, 0.5] None 0) =
       [Search \<lparr>index = ''docs'', body = query_body ''ice loss'' [0.25, 0.5] 5,
                params = Some [(''search_pipeline'', ''nlp-search-pipeline'')]\<rparr>,
        Search \<lparr>index = ''docs'', body = query_body ''ice loss'' [0.25, 0.5] 5, params = None\<rparr>]
   \<and> outcome (hybrid_search old_client ''docs'' ''ice loss'' [0.25, 0.5] None 0) =
       Inr (JArr [JObj [(''_score'', JFloat 0.5)]])
   \<and> world (hybrid_search old_client ''docs'' ''ice loss'' [0.25, 0.5] None 0) = 2"
proof -
  have first: "old_client (pipeline_call ''docs'' (query_body ''ice loss'' [0.25, 0.5] (top_k_value None))) 0
                 = (Inl TypeError, 1)"
    by (simp add: old_client_def pipeline_call_def)
  show ?thesis
    using first
      typeerror_fallback [where client = old_client and idx = "''docs''" and q = "''ice loss''"
        and v = "[0.25, 0.5]" and top_k = None and w = 0 and ?w1.0 = 1]
    by (simp add: old_client_def fallback_call_def top_k_value_def)
qed

text \<open>
  Claim C6. Whenever the engine answers the search, at the first call or at the
  fallback call, with a response that has \<^verbatim>\<open>["hits"]["hits"]\<close>, \<^verbatim>\<open>hybrid_search\<close>
  returns exactly that value: the function does not reorder, filter or rewrite it.
\<close>

theorem hybrid_search_returns_engine_hits:
  assumes "subscripts response [''hits'', ''hits''] = Inr hits"
    and "client (pipeline_call idx (query_body q v (top_k_value top_k))) w = (Inr response, w1)
         \<or> (client (pipeline_call idx (query_body q v (top_k_value top_k))) w = (Inl TypeError, w1)
            \<and> client (fallback_call idx (query_body q v (top_k_value top_k))) w1 = (Inr response, w2))"
  shows "outcome (hybrid_search client idx q v top_k w) = Inr hits"
  using assms
  by (auto simp add: hybrid_search_def Let_def split: prod.splits sum.splits)

theorem hybrid_search_returns_engine_hits_witness:
  "subscripts (JObj [(''took'', JInt 3),
                     (''hits'', JObj [(''max_score'', JFloat (0.5::real)),
                                      (''hits'', JArr [JObj [(''_score'', JFloat 0.5)]])])])
              [''hits'', ''hits''] = Inr (JArr [JObj [(''_score'', JFloat 0.5)]])
   \<and> old_client (pipeline_call ''docs'' (query_body ''ice loss'' [0.25, 0.5] 5)) 0 = (Inl TypeError, 1)
   \<and> old_client (fallback_call ''docs'' (query_body ''ice loss'' [0.25, 0.5] 5)) 1 =
       (Inr (JObj [(''took'', JInt 3),
                   (''hits'', JObj [(''max_score'', JFloat 0.5),
                                    (''hits'', JArr [JObj [(''_score'', JFloat 0.5)]])])]), 2)
   \<and> outcome (hybrid_search old_client ''docs'' ''ice loss'' [0.25, 0.5] (Some 5) 0) =
       Inr (JArr [JObj [(''_score'', JFloat 0.5)]])"
proof -
  let ?r = "JObj [(''took'', JInt 3),
                  (''hits'', JObj [(''max_score'', JFloat (0.5::real)),
                                   (''hits'', JArr [JObj [(''_score'', JFloat 0.5)]])])]"
  have h: "subscripts ?r [''hits'', ''hits''] = Inr (JArr [JObj [(''_score'', JFloat 0.5)]])"
    by simp
  have c1: "old_client (pipeline_call ''docs'' (query_body ''ice loss'' [0.25, 0.5] (top_k_value (Some 5)))) 0
              = (Inl TypeError, 1)"
    by (simp add: old_client_def pipeline_call_def)
  have c2: "old_client (fallback_call ''docs'' (query_body ''ice loss'' [0.25, 0.5] (top_k_value (Some 5)))) 1
              = (Inr ?r, 2)"
    by (simp add: old_client_def fallback_call_def)
  show ?thesis
    using h c1 c2
      hybrid_search_returns_engine_hits [where client = old_client and idx = "''docs''"
        and q = "''ice loss''" and v = "[0.25, 0.5]" and top_k = "Some 5" and w = 0
        and ?w1.0 = 1 and ?w2.0 = 2 and response = ?r
        and hits = "JArr [JObj [(''_score'', JFloat 0.5)]]"]
    by (simp add: top_k_value_def)
qed

section \<open>The prompt builder\<close>

lemma prompt_of_generate:
  "prompt_of (generate_response_with_ollama str_of M query results model_name) =
     (case format_context str_of 0 [] results of
        Inl e \<Rightarrow> Inl e | Inr context \<Rightarrow> Inr (prompt_template context query))"
  by (simp add: prompt_of_def generate_response_with_ollama_def split: sum.splits)

text \<open>
  Claim C3. Two runs of the prompt builder on the same query and the same ordered hit
  list build the same prompt text (or raise the same exception), whatever the model
  name and its default are in the two runs: the builder reads nothing else.
\<close>

theorem prompt_deterministic:
  assumes "query1 = query2" and "results1 = results2"
  shows "prompt_of (generate_response_with_ollama str_of M1 query1 results1 model_name1) =
         prompt_of (generate_response_with_ollama str_of M2 query2 results2 model_name2)"
  using assms by (simp add: prompt_of_generate)

theorem prompt_deterministic_witness:
  "prompt_of (generate_response_with_ollama no_str ''llama3.2:1b'' ''Why?'' [hit_a, hit_c] None) =
   prompt_of (generate_response_with_ollama no_str ''mistral'' ''Why?'' [hit_a, hit_c] (Some ''phi''))"
  using prompt_deterministic [where ?query1.0 = "''Why?''" and ?query2.0 = "''Why?''"
      and ?results1.0 = "[hit_a, hit_c]" and ?results2.0 = "[hit_a, hit_c]" and str_of = no_str
      and ?M1.0 = "''llama3.2:1b''" and ?M2.0 = "''mistral''"
      and ?model_name1.0 = None and ?model_name2.0 = "Some ''phi''"]
  by simp

lemma format_context_texts:
  "map (\<lambda>r. subscripts r [''_source'', ''text'']) results = map (\<lambda>t. Inr (JStr t)) texts \<Longrightarrow>
   format_context str_of i ctx results =
     Inr (ctx @ concat (map (\<lambda>(j, t). document_block j t) (enumerate i texts)))"
proof (induction results arbitrary: i ctx texts)
  case Nil
  then show ?case by simp
next
  case (Cons r rs)
  then obtain t ts where texts: "texts = t # ts" by (cases texts) auto
  with Cons.prems have r: "subscripts r [''_source'', ''text''] = Inr (JStr t)"
    and rs: "map (\<lambda>r. subscripts r [''_source'', ''text'']) rs = map (\<lambda>t. Inr (JStr t)) ts"
    by simp_all
  from Cons.IH [OF rs] r texts show ?case
    by (simp add: document_block_def py_str_def)
qed

text \<open>
  Claim C4. For a list of N hits whose \<^verbatim>\<open>['_source']['text']\<close> are the strings
  \<open>texts\<close>, and every query, the context of the prompt is the concatenation of
  exactly N blocks, one for each hit in the order of the list: the block of the hit at
  index \<open>i\<close> is the label \<^verbatim>\<open>Document\<close> with the number \<open>i + 1\<close>, a colon and a
  newline, then the whole text of the hit, then two newlines. No text is shortened,
  and a text that occurs twice is written twice.
\<close>

theorem prompt_documents:
  assumes "map (\<lambda>r. subscripts r [''_source'', ''text'']) results = map (\<lambda>t. Inr (JStr t)) texts"
  shows "prompt_of (generate_response_with_ollama str_of M query results model_name) =
           Inr (prompt_template
                  (concat (map (\<lambda>(i, t). ''Document '' @ str_nat (i + 1) @ '':\<newline>'' @ t @ ''\<newline>\<newline>'')
                               (enumerate 0 texts)))
                  query)
         \<and> length (enumerate 0 texts) = length results"
proof -
  have "length texts = length results"
    using assms by (metis length_map)
  then show ?thesis
    using format_context_texts [OF assms, of str_of 0 "[]"]
    by (simp add: prompt_of_generate document_block_def)
qed

theorem prompt_documents_witness:
  "map (\<lambda>r. subscripts r [''_source'', ''text'']) [hit_a, hit_c] =
     map (\<lambda>t. Inr (JStr t)) [''Ice is melting.'', ''Sea level rises.'']
   \<and> prompt_of (generate_response_with_ollama no_str ''llama3.2:1b'' ''Why?'' [hit_a, hit_c] None) =
       Inr (''You are a helpful AI assistant. Use the following context to answer the question.\<newline>If you cannot find the answer in the context, say so.\<newline>\<newline>Context:\<newline>Document 1:\<newline>Ice is melting.\<newline>\<newline>Document 2:\<newline>Sea level rises.\<newline>\<newline>\<newline>\<newline>Question: Why?\<newline>\<newline>Answer: '')"
proof -
  have texts: "map (\<lambda>r. subscripts r [''_source'', ''text'']) [hit_a, hit_c] =
                 map (\<lambda>t. Inr (JStr t)) [''Ice is melting.'', ''Sea level rises.'']"
    by (simp add: hit_a_def hit_c_def)
  have one: "str_nat (Suc 0) = ''1''" and two: "str_nat (Suc (Suc 0)) = ''2''"
    by (simp_all add: str_nat.simps digit_def)
  show ?thesis
    using texts
      prompt_documents [where results = "[hit_a, hit_c]"
        and texts = "[''Ice is melting.'', ''Sea level rises.'']" and str_of = no_str
        and M = "''llama3.2:1b''" and query = "''Why?''" and model_name = None]
    by (simp add: prompt_template_def enumerate_eq_zip one two)
qed

text \<open>
  Claim C5. For every query, the prompt built from the empty hit list has an empty
  context (the loop adds no \<^verbatim>\<open>Document\<close> block): it is the fixed instruction down to
  \<^verbatim>\<open>Context:\<close>, nothing for the context, and then the question, word for word, before
  \<^verbatim>\<open>Answer:\<close>.
\<close>

theorem empty_hits_prompt:
  "prompt_of (generate_response_with_ollama str_of M query [] model_name) =
     Inr (''You are a helpful AI assistant. Use the following context to answer the question.\<newline>If you cannot find the answer in the context, say so.\<newline>\<newline>Context:\<newline>''
            @ [] @ ''\<newline>\<newline>Question: '' @ query @ ''\<newline>\<newline>Answer: '')
   \<and> format_context str_of 0 [] [] = Inr []"
  by (simp add: prompt_of_generate prompt_template_def)

lemma format_context_cong:
  "map (\<lambda>r. subscripts r [''_source'', ''text'']) results1 =
   map (\<lambda>r. subscripts r [''_source'', ''text'']) results2 \<Longrightarrow>
   format_context str_of i ctx results1 = format_context str_of i ctx results2"
proof (induction results1 arbitrary: i ctx results2)
  case Nil
  then show ?case by simp
next
  case (Cons r rs)
  then obtain r' rs' where "results2 = r' # rs'" by (cases results2) auto
  with Cons show ?case
    by (simp split: sum.splits)
qed

text \<open>
  Claim C10. Two hit lists that agree, hit by hit, on what \<^verbatim>\<open>['_source']['text']\<close>
  gives make the prompt builder return the same pair, for the same query and model
  name: scores, document names and every other part of a hit have no effect.
\<close>

theorem prompt_noninterference:
  assumes "map (\<lambda>r. subscripts r [''_source'', ''text'']) results1 =
           map (\<lambda>r. subscripts r [''_source'', ''text'']) results2"
  shows "generate_response_with_ollama str_of M query results1 model_name =
         generate_response_with_ollama str_of M query results2 model_name"
  using format_context_cong [OF assms]
  by (simp add: generate_response_with_ollama_def)

theorem prompt_noninterference_witness:
  "map (\<lambda>r. subscripts r [''_source'', ''text'']) [hit_a] =
     map (\<lambda>r. subscripts r [''_source'', ''text'']) [hit_b]
   \<and> hit_a \<noteq> hit_b
   \<and> generate_response_with_ollama no_str ''llama3.2:1b'' ''Why?'' [hit_a] None =
       generate_response_with_ollama no_str ''llama3.2:1b'' ''Why?'' [hit_b] None"
proof -
  have texts: "map (\<lambda>r. subscripts r [''_source'', ''text'']) [hit_a] =
                 map (\<lambda>r. subscripts r [''_source'', ''text'']) [hit_b]"
    by (simp add: hit_a_def hit_b_def)
  have "hit_a \<noteq> hit_b"
    by (simp add: hit_a_def hit_b_def)
  then show ?thesis
    using texts
      prompt_noninterference [where ?results1.0 = "[hit_a]" and ?results2.0 = "[hit_b]"
        and str_of = no_str and M = "''llama3.2:1b''" and query = "''Why?''" and model_name = None]
    by simp
qed

section \<open>The generation relay\<close>

lemma relay_pieces:
  "list_all2 (\<lambda>item piece. \<exists>chunk. item = Inr chunk \<and> subscript chunk ''response'' = Inr (JStr piece))
     items pieces \<Longrightarrow>
   relay str_of response out items = (Inr (response @ concat pieces), out @ map Stdout pieces)"
proof (induction items pieces arbitrary: response out rule: list_all2_induct)
  case Nil
  then show ?case by simp
next
  case (Cons item items piece pieces)
  then show ?case by auto
qed

text \<open>
  Claim C8. Take a model, a prompt and a provider that behaves the same in both modes:
  its stream is a finite sequence of chunks whose \<^verbatim>\<open>response\<close> texts are \<open>pieces\<close>,
  and its non-streaming completion is the concatenation of these pieces. Then the
  string the relay accumulates is that completion; the relay appends each piece as it
  arrives (and prints it), changing nothing.
\<close>

theorem relay_equals_completion:
  assumes "list_all2 (\<lambda>item piece. \<exists>chunk. item = Inr chunk \<and> subscript chunk ''response'' = Inr (JStr piece))
             (generate_stream ollama model_name prompt) pieces"
    and "non_streaming_completion ollama model_name prompt = Inr (JStr (concat pieces))"
  shows "map_sum id JStr (fst (streamed_response str_of ollama model_name prompt)) =
           non_streaming_completion ollama model_name prompt
         \<and> fst (streamed_response str_of ollama model_name prompt) = Inr (concat pieces)
         \<and> snd (streamed_response str_of ollama model_name prompt) = map Stdout pieces"
  using relay_pieces [OF assms(1), of str_of "[]" "[]"] assms(2)
  by (simp add: streamed_response_def)

theorem relay_equals_completion_witness:
  "list_all2 (\<lambda>item piece. \<exists>chunk. item = Inr chunk \<and> subscript chunk ''response'' = Inr (JStr piece))
     (generate_stream steady_provider ''llama3.2:1b'' ''Why?'') [''The ice '', ''melts.'', []]
   \<and> non_streaming_completion steady_provider ''llama3.2:1b'' ''Why?'' = Inr (JStr ''The ice melts.'')
   \<and> fst (streamed_response no_str steady_provider ''llama3.2:1b'' ''Why?'') = Inr ''The ice melts.''"
proof -
  have chunks: "list_all2 (\<lambda>item piece. \<exists>chunk. item = Inr chunk \<and> subscript chunk ''response'' = Inr (JStr piece))
     (generate_stream steady_provider ''llama3.2:1b'' ''Why?'') [''The ice '', ''melts.'', []]"
    by (simp add: steady_provider_def)
  have once: "non_streaming_completion steady_provider ''llama3.2:1b'' ''Why?'' =
                Inr (JStr (concat [''The ice '', ''melts.'', []]))"
    by (simp add: steady_provider_def non_streaming_completion_def)
  show ?thesis
    using chunks once
      relay_equals_completion [where ollama = steady_provider and model_name = "''llama3.2:1b''"
        and prompt = "''Why?''" and pieces = "[''The ice '', ''melts.'', []]" and str_of = no_str]
    by simp
qed

section \<open>Retries\<close>








lemma transport_first_attempt:
  "snd (snd (transport_attempts cfg (counting wire) request (Suc remaining) (w, n))) =
     (case fst (wire request w) of
        Inr response \<Rightarrow> n + 1
      | Inl e \<Rightarrow>
          if retried cfg e
          then snd (snd (transport_attempts cfg (counting wire) request remaining
                          (snd (wire request w), n + 1)))
          else n + 1)"
  by (simp add: counting_def split: prod.splits sum.splits)



lemma check_connection_world:
  "world (check_connection str_of exn_str client w) = snd (client Info w)"
  by (simp add: check_connection_def Let_def split: prod.splits sum.splits)







end
